theory Spec2Isabelle
  imports Main "HOL-Library.Char_ord" "HOL-Library.List_Lexorder" "HOL-Library.Sublist"
    "HOL-Library.AList"
begin

section \<open>Python strings and scalar values\<close>

text \<open>
  Texts are ASCII: a \<^typ>\<open>string\<close> is the list of the code points of a Python \<open>str\<close>.
  \<open>str.lower\<close> and \<open>str.upper\<close> change the 26 ASCII letters and leave every other
  character alone; \<open>str.strip\<close> removes the ASCII white space of \<open>str.isspace\<close>
  (code points 9 to 13, 28 to 31 and 32) from both ends.
\<close>

definition lower_char :: "char \<Rightarrow> char" where
  "lower_char c =
     (case map_of (zip ''ABCDEFGHIJKLMNOPQRSTUVWXYZ'' ''abcdefghijklmnopqrstuvwxyz'') c of
        None \<Rightarrow> c | Some d \<Rightarrow> d)"

definition upper_char :: "char \<Rightarrow> char" where
  "upper_char c =
     (case map_of (zip ''abcdefghijklmnopqrstuvwxyz'' ''ABCDEFGHIJKLMNOPQRSTUVWXYZ'') c of
        None \<Rightarrow> c | Some d \<Rightarrow> d)"

definition py_lower :: "string \<Rightarrow> string" where
  "py_lower s = map lower_char s"

definition py_upper :: "string \<Rightarrow> string" where
  "py_upper s = map upper_char s"

definition is_space :: "char \<Rightarrow> bool" where
  "is_space c = (c \<in> set [CHR 0x09, CHR 0x0A, CHR 0x0B, CHR 0x0C, CHR 0x0D,
                           CHR 0x1C, CHR 0x1D, CHR 0x1E, CHR 0x1F, CHR 0x20])"

definition py_strip :: "string \<Rightarrow> string" where
  "py_strip s = rev (dropWhile is_space (rev (dropWhile is_space s)))"

text \<open>\<open>needle in hay\<close> on two strings: \<open>needle\<close> occurs as a contiguous slice.\<close>

fun py_in :: "string \<Rightarrow> string \<Rightarrow> bool" where
  "py_in needle [] = (needle = [])"
| "py_in needle (c # cs) = (prefix needle (c # cs) \<or> py_in needle cs)"

text \<open>\<open>sep.join(parts)\<close>.\<close>

fun py_join :: "string \<Rightarrow> string list \<Rightarrow> string" where
  "py_join sep [] = []"
| "py_join sep [x] = x"
| "py_join sep (x # y # ys) = x @ sep @ py_join sep (y # ys)"

text \<open>\<open>str(n)\<close> of an integer: decimal digits, a minus sign in front when negative.\<close>

definition digit_char :: "nat \<Rightarrow> char" where
  "digit_char d = ''0123456789'' ! d"

fun str_nat :: "nat \<Rightarrow> string" where
  "str_nat n = (if n < 10 then [digit_char n] else str_nat (n div 10) @ [digit_char (n mod 10)])"

definition str_int :: "int \<Rightarrow> string" where
  "str_int i = (if i < 0 then CHR ''-'' # str_nat (nat (- i)) else str_nat (nat i))"

text \<open>
  The scalar values a metadata field holds when the code reads it through \<open>str(...)\<close>:
  \<open>None\<close>, a \<open>bool\<close>, an \<open>int\<close> or a \<open>str\<close>.
\<close>

datatype pyval = PNone | PBool bool | PInt int | PStr string

fun py_str :: "pyval \<Rightarrow> string" where
  "py_str PNone = ''None''"
| "py_str (PBool b) = (if b then ''True'' else ''False'')"
| "py_str (PInt i) = str_int i"
| "py_str (PStr s) = s"


section \<open>Column records\<close>

text \<open>
  A column record is a dictionary with optional keys; a field is \<open>None\<close> when its key is
  absent (so \<open>col.get(k)\<close> is the field, and \<open>col.get(k, d)\<close> is \<open>d\<close> on \<open>None\<close>).
  The types are those the metadata extractor gives the fields. \<open>is_nullable\<close> is read
  through \<open>str(...)\<close> and is kept as a scalar value, \<open>Some PNone\<close> being the key present
  with the value \<open>None\<close>.
\<close>

record column =
  c_name :: "string option"
  c_ordinal_position :: "int option"
  c_data_type :: "string option"
  c_max_length :: "int option"
  c_precision :: "int option"
  c_scale :: "int option"
  c_is_nullable :: "pyval option"
  c_default_value :: "string option"
  c_is_identity :: "bool option"
  c_identity_seed :: "int option"
  c_identity_increment :: "int option"
  c_is_computed :: "bool option"
  c_computed_definition :: "string option"
  c_is_persisted :: "bool option"
  c_collation :: "string option"
  c_is_sparse :: "bool option"
  c_is_rowguidcol :: "bool option"

text \<open>\<open>x or ""\<close> on an optional string, \<open>d.get(k, False)\<close> and truthiness of a flag.\<close>

definition or_empty :: "string option \<Rightarrow> string" where
  "or_empty x = (case x of None \<Rightarrow> [] | Some s \<Rightarrow> s)"

definition get_flag :: "bool option \<Rightarrow> bool" where
  "get_flag x = (case x of None \<Rightarrow> False | Some b \<Rightarrow> b)"

text \<open>\<open>ScriptGenerator._is_nullable\<close>.\<close>

definition is_nullable :: "column \<Rightarrow> bool" where
  "is_nullable col =
     (case c_is_nullable col of
        None \<Rightarrow> True
      | Some PNone \<Rightarrow> True
      | Some nullable \<Rightarrow>
          (let text = py_upper (py_strip (py_str nullable))
           in text \<in> set [''YES'', ''Y'', ''TRUE'', ''1'']))"

text \<open>The token \<open>"NULL" if self._is_nullable(col) else "NOT NULL"\<close> of the column formatters.\<close>

definition nullable_str :: "column \<Rightarrow> string" where
  "nullable_str col = (if is_nullable col then ''NULL'' else ''NOT NULL'')"

text \<open>\<open>ScriptGenerator._column_signature\<close>: the tuple, component by component.\<close>

type_synonym signature =
  "string \<times> int option \<times> int option \<times> int option \<times> bool \<times> string option
   \<times> bool \<times> int option \<times> int option
   \<times> bool \<times> string option \<times> bool option
   \<times> string option \<times> bool \<times> bool"

definition column_signature :: "column \<Rightarrow> signature" where
  "column_signature col =
     (py_lower (or_empty (c_data_type col)),
      c_max_length col,
      c_precision col,
      c_scale col,
      is_nullable col,
      c_default_value col,
      get_flag (c_is_identity col),
      (if get_flag (c_is_identity col) then c_identity_seed col else None),
      (if get_flag (c_is_identity col) then c_identity_increment col else None),
      get_flag (c_is_computed col),
      (if get_flag (c_is_computed col) then c_computed_definition col else None),
      (if get_flag (c_is_computed col) then Some (get_flag (c_is_persisted col)) else None),
      c_collation col,
      get_flag (c_is_sparse col),
      get_flag (c_is_rowguidcol col))"

text \<open>
  The dictionary \<open>{c.get("name"): c for c in columns if c.get("name")}\<close>, in insertion
  order: a later column of the same name replaces the value and keeps the place.
\<close>

definition columns_by_name :: "column list \<Rightarrow> (string \<times> column) list" where
  "columns_by_name cols =
     fold (\<lambda>c d. case c_name c of
                    None \<Rightarrow> d
                  | Some n \<Rightarrow> if n = [] then d else AList.update n c d) cols []"

text \<open>
  \<open>ScriptGenerator._compare_columns\<close>, on the two column lists
  (\<open>source_table.get("columns", [])\<close> and \<open>target_table.get("columns", [])\<close>):
  the triple \<open>(added, removed, changed)\<close>.
\<close>

definition compare_columns ::
  "column list \<Rightarrow> column list \<Rightarrow> column list \<times> column list \<times> (column \<times> column) list" where
  "compare_columns source_columns target_columns =
     (let src_cols = columns_by_name source_columns;
          tgt_cols = columns_by_name target_columns;
          added = concat (map (\<lambda>(name, col).
                     case map_of tgt_cols name of None \<Rightarrow> [col] | Some tgt_col \<Rightarrow> []) src_cols);
          changed = concat (map (\<lambda>(name, col).
                     case map_of tgt_cols name of
                       None \<Rightarrow> []
                     | Some tgt_col \<Rightarrow>
                         if column_signature col \<noteq> column_signature tgt_col
                         then [(col, tgt_col)] else []) src_cols);
          removed = concat (map (\<lambda>(name, col).
                     case map_of src_cols name of None \<Rightarrow> [col] | Some _ \<Rightarrow> []) tgt_cols)
      in (added, removed, changed))"

definition changed_columns :: "column list \<Rightarrow> column list \<Rightarrow> (column \<times> column) list" where
  "changed_columns source_columns target_columns =
     snd (snd (compare_columns source_columns target_columns))"


section \<open>Properties of the column logic\<close>

lemma columns_by_name_fold_distinct:
  "distinct (map fst d) \<Longrightarrow>
   distinct (map fst (fold (\<lambda>c d. case c_name c of
                    None \<Rightarrow> d
                  | Some n \<Rightarrow> if n = [] then d else AList.update n c d) cols d))"
  by (induction cols arbitrary: d) (auto split: option.splits simp: distinct_update)

lemma columns_by_name_distinct: "distinct (map fst (columns_by_name cols))"
  unfolding columns_by_name_def by (rule columns_by_name_fold_distinct) simp

lemma changed_columns_iff:
  "(s, t) \<in> set (changed_columns source_columns target_columns) \<longleftrightarrow>
     (\<exists>n. map_of (columns_by_name source_columns) n = Some s \<and>
          map_of (columns_by_name target_columns) n = Some t \<and>
          column_signature s \<noteq> column_signature t)"
  (is "?L \<longleftrightarrow> ?R")
proof -
  let ?src = "columns_by_name source_columns"
  let ?tgt = "columns_by_name target_columns"
  have d: "distinct (map fst ?src)"
    by (rule columns_by_name_distinct)
  have "?L \<longleftrightarrow> (\<exists>n. (n, s) \<in> set ?src \<and> map_of ?tgt n = Some t \<and>
                   column_signature s \<noteq> column_signature t)"
    unfolding changed_columns_def compare_columns_def Let_def
    by (force split: option.splits if_splits)
  also have "\<dots> \<longleftrightarrow> ?R"
    using d by (simp add: map_of_eq_Some_iff)
  finally show ?thesis .
qed

lemma nullability_in_signature:
  "is_nullable s \<noteq> is_nullable t \<Longrightarrow> column_signature s \<noteq> column_signature t"
  by (auto simp: column_signature_def)

lemma untracked: "column_signature (s\<lparr>c_ordinal_position := p\<rparr>) = column_signature s"
  by (simp add: column_signature_def is_nullable_def)

lemma lower_upper_char: "lower_char (upper_char c) = lower_char c"
  by (simp add: lower_char_def upper_char_def)

lemma py_lower_upper: "py_lower (py_upper d) = py_lower d"
  by (simp add: py_lower_def py_upper_def lower_upper_char)

lemma signature_content:
  "column_signature s = column_signature t \<longleftrightarrow>
     py_lower (or_empty (c_data_type s)) = py_lower (or_empty (c_data_type t))
     \<and> c_max_length s = c_max_length t
     \<and> c_precision s = c_precision t
     \<and> c_scale s = c_scale t
     \<and> is_nullable s = is_nullable t
     \<and> c_default_value s = c_default_value t
     \<and> get_flag (c_is_identity s) = get_flag (c_is_identity t)
     \<and> (get_flag (c_is_identity s) \<longrightarrow>
          c_identity_seed s = c_identity_seed t \<and> c_identity_increment s = c_identity_increment t)
     \<and> get_flag (c_is_computed s) = get_flag (c_is_computed t)
     \<and> (get_flag (c_is_computed s) \<longrightarrow>
          c_computed_definition s = c_computed_definition t
          \<and> get_flag (c_is_persisted s) = get_flag (c_is_persisted t))
     \<and> c_collation s = c_collation t
     \<and> get_flag (c_is_sparse s) = get_flag (c_is_sparse t)
     \<and> get_flag (c_is_rowguidcol s) = get_flag (c_is_rowguidcol t)"
  by (auto simp: column_signature_def)

lemma case_insensitive_type:
  "column_signature (s\<lparr>c_data_type := Some (py_upper d)\<rparr>) = column_signature (s\<lparr>c_data_type := Some d\<rparr>)"
  by (simp add: column_signature_def or_empty_def py_lower_upper is_nullable_def)

lemma str_nat_length: "10 \<le> n \<Longrightarrow> 2 \<le> length (str_nat n)"
  by (induction n rule: str_nat.induct) (subst str_nat.simps, auto)

lemma digit_1: "d < 10 \<Longrightarrow> digit_char d = CHR ''1'' \<longleftrightarrow> d = 1"
  by (auto simp: digit_char_def numeral_eq_Suc less_Suc_eq)

lemma str_nat_1: "str_nat n = ''1'' \<longleftrightarrow> n = 1"
proof (cases "n < 10")
  case True
  then show ?thesis using digit_1[of n] by simp
next
  case False
  then have "2 \<le> length (str_nat n)" by (simp add: str_nat_length del: str_nat.simps)
  with False show ?thesis by (auto simp del: str_nat.simps)
qed

text \<open>The column of the repository's generator test: \<open>id int NOT NULL\<close>.\<close>

definition int_column :: column where
  "int_column = \<lparr>c_name = Some ''id'', c_ordinal_position = Some 1, c_data_type = Some ''int'',
     c_max_length = None, c_precision = None, c_scale = None, c_is_nullable = Some (PBool False),
     c_default_value = None, c_is_identity = None, c_identity_seed = None,
     c_identity_increment = None, c_is_computed = None, c_computed_definition = None,
     c_is_persisted = None, c_collation = None, c_is_sparse = None, c_is_rowguidcol = None\<rparr>"

text \<open>
  Claim C10. Nullability as the column formatters and the signature read it: a column
  whose \<open>is_nullable\<close> is absent or \<open>None\<close> is nullable; a present value is nullable
  exactly when its stripped, upper-cased \<open>str\<close> form is one of \<open>YES\<close>, \<open>Y\<close>,
  \<open>TRUE\<close>, \<open>1\<close>. So a boolean counts as itself and the string \<open>yes\<close> as nullable,
  and the rendered token is \<open>NULL\<close> for a nullable column and \<open>NOT NULL\<close> otherwise.
\<close>

theorem is_nullable_interpretation:
  "(c_is_nullable col = None \<or> c_is_nullable col = Some PNone \<longrightarrow> is_nullable col)
   \<and> (\<forall>v. c_is_nullable col = Some v \<and> v \<noteq> PNone \<longrightarrow>
          is_nullable col = (py_upper (py_strip (py_str v)) \<in> {''YES'', ''Y'', ''TRUE'', ''1''}))
   \<and> (\<forall>b. c_is_nullable col = Some (PBool b) \<longrightarrow> is_nullable col = b)
   \<and> (c_is_nullable col = Some (PStr ''yes'') \<longrightarrow> is_nullable col)
   \<and> nullable_str col = (if is_nullable col then ''NULL'' else ''NOT NULL'')"
proof -
  have a: "c_is_nullable col = None \<or> c_is_nullable col = Some PNone \<longrightarrow> is_nullable col"
    by (auto simp: is_nullable_def)
  have b: "\<forall>v. c_is_nullable col = Some v \<and> v \<noteq> PNone \<longrightarrow>
          is_nullable col = (py_upper (py_strip (py_str v)) \<in> {''YES'', ''Y'', ''TRUE'', ''1''})"
    by (auto simp: is_nullable_def Let_def split: pyval.splits)
  have c: "\<forall>b. c_is_nullable col = Some (PBool b) \<longrightarrow> is_nullable col = b"
    by (simp add: is_nullable_def py_upper_def py_strip_def is_space_def upper_char_def)
  have d: "c_is_nullable col = Some (PStr ''yes'') \<longrightarrow> is_nullable col"
    by (simp add: is_nullable_def py_upper_def py_strip_def is_space_def upper_char_def)
  show ?thesis using a b c d by (simp add: nullable_str_def)
qed

text \<open>The interpretation at the strings \<open>" Yes "\<close>, at \<open>False\<close> and at an absent key.\<close>

theorem is_nullable_interpretation_witness:
  "c_is_nullable (int_column\<lparr>c_is_nullable := Some (PStr '' Yes '')\<rparr>) = Some (PStr '' Yes '')
   \<and> PStr '' Yes '' \<noteq> PNone
   \<and> is_nullable (int_column\<lparr>c_is_nullable := Some (PStr '' Yes '')\<rparr>)
   \<and> c_is_nullable int_column = Some (PBool False)
   \<and> \<not> is_nullable int_column
   \<and> nullable_str int_column = ''NOT NULL''
   \<and> c_is_nullable (int_column\<lparr>c_is_nullable := None\<rparr>) = None
   \<and> is_nullable (int_column\<lparr>c_is_nullable := None\<rparr>)"
  using is_nullable_interpretation [of "int_column\<lparr>c_is_nullable := Some (PStr '' Yes '')\<rparr>"]
    is_nullable_interpretation [of int_column]
    is_nullable_interpretation [of "int_column\<lparr>c_is_nullable := None\<rparr>"]
  by (simp add: int_column_def py_upper_def py_strip_def is_space_def upper_char_def)

text \<open>
  Claim C3. A pair of columns of one name, one of the source table and one of the target
  table, is among the changed columns exactly when their signature tuples differ. Two
  signatures are equal exactly when the columns agree on: the lower-cased data type, the
  maximum length, the precision, the scale, the nullability, the default-value text, the
  identity flag and (for identity columns only) seed and increment, the computed flag and
  (for computed columns only) definition and persisted flag, the collation, the sparse
  flag and the rowguidcol flag. So two columns of different nullability are changed, two
  columns that agree on every tracked field are not, the letter case of the data type
  does not matter, and a field outside the signature (the ordinal position) does not
  change it.
\<close>

theorem column_change_detection:
  "((s, t) \<in> set (changed_columns source_columns target_columns) \<longleftrightarrow>
     (\<exists>n. map_of (columns_by_name source_columns) n = Some s \<and>
          map_of (columns_by_name target_columns) n = Some t \<and>
          column_signature s \<noteq> column_signature t))
   \<and> (column_signature s = column_signature t \<longleftrightarrow>
         py_lower (or_empty (c_data_type s)) = py_lower (or_empty (c_data_type t))
         \<and> c_max_length s = c_max_length t
         \<and> c_precision s = c_precision t
         \<and> c_scale s = c_scale t
         \<and> is_nullable s = is_nullable t
         \<and> c_default_value s = c_default_value t
         \<and> get_flag (c_is_identity s) = get_flag (c_is_identity t)
         \<and> (get_flag (c_is_identity s) \<longrightarrow>
              c_identity_seed s = c_identity_seed t \<and> c_identity_increment s = c_identity_increment t)
         \<and> get_flag (c_is_computed s) = get_flag (c_is_computed t)
         \<and> (get_flag (c_is_computed s) \<longrightarrow>
              c_computed_definition s = c_computed_definition t
              \<and> get_flag (c_is_persisted s) = get_flag (c_is_persisted t))
         \<and> c_collation s = c_collation t
         \<and> get_flag (c_is_sparse s) = get_flag (c_is_sparse t)
         \<and> get_flag (c_is_rowguidcol s) = get_flag (c_is_rowguidcol t))
   \<and> (is_nullable s \<noteq> is_nullable t \<longrightarrow> column_signature s \<noteq> column_signature t)
   \<and> column_signature (s\<lparr>c_data_type := Some (py_upper d)\<rparr>)
       = column_signature (s\<lparr>c_data_type := Some d\<rparr>)
   \<and> column_signature (s\<lparr>c_ordinal_position := p\<rparr>) = column_signature s"
proof (intro conjI)
  show "(s, t) \<in> set (changed_columns source_columns target_columns) \<longleftrightarrow>
     (\<exists>n. map_of (columns_by_name source_columns) n = Some s \<and>
          map_of (columns_by_name target_columns) n = Some t \<and>
          column_signature s \<noteq> column_signature t)"
    by (rule changed_columns_iff)
  show "is_nullable s \<noteq> is_nullable t \<longrightarrow> column_signature s \<noteq> column_signature t"
    using nullability_in_signature by blast
  show "column_signature (s\<lparr>c_data_type := Some (py_upper d)\<rparr>)
       = column_signature (s\<lparr>c_data_type := Some d\<rparr>)"
    by (rule case_insensitive_type)
  show "column_signature (s\<lparr>c_ordinal_position := p\<rparr>) = column_signature s"
    by (rule untracked)
qed (rule signature_content)

text \<open>
  The \<open>int\<close> column \<open>id\<close> against copies of itself: with \<open>is_nullable = "YES"\<close> it is
  changed; at another ordinal position, with the type written \<open>INT\<close>, or with a seed but
  no identity flag, it is not; with the type \<open>bigint\<close> it is changed; and two identity
  columns with different seeds are changed. Its signature is the tuple written out.
\<close>

theorem column_change_detection_witness:
  "is_nullable (int_column\<lparr>c_is_nullable := Some (PStr ''YES'')\<rparr>) \<noteq> is_nullable int_column
   \<and> changed_columns [int_column\<lparr>c_is_nullable := Some (PStr ''YES'')\<rparr>] [int_column]
       = [(int_column\<lparr>c_is_nullable := Some (PStr ''YES'')\<rparr>, int_column)]
   \<and> column_signature (int_column\<lparr>c_is_nullable := Some (PStr ''YES'')\<rparr>) \<noteq> column_signature int_column
   \<and> changed_columns [int_column\<lparr>c_ordinal_position := Some 7\<rparr>] [int_column] = []
   \<and> changed_columns [int_column\<lparr>c_data_type := Some ''INT''\<rparr>] [int_column] = []
   \<and> changed_columns [int_column\<lparr>c_data_type := Some ''bigint''\<rparr>] [int_column]
       = [(int_column\<lparr>c_data_type := Some ''bigint''\<rparr>, int_column)]
   \<and> \<not> get_flag (c_is_identity int_column)
   \<and> changed_columns [int_column\<lparr>c_identity_seed := Some 5\<rparr>] [int_column] = []
   \<and> get_flag (c_is_identity (int_column\<lparr>c_is_identity := Some True, c_identity_seed := Some 5\<rparr>))
   \<and> changed_columns [int_column\<lparr>c_is_identity := Some True, c_identity_seed := Some 5\<rparr>]
         [int_column\<lparr>c_is_identity := Some True, c_identity_seed := Some 1\<rparr>]
       = [(int_column\<lparr>c_is_identity := Some True, c_identity_seed := Some 5\<rparr>,
           int_column\<lparr>c_is_identity := Some True, c_identity_seed := Some 1\<rparr>)]
   \<and> column_signature int_column
       = (''int'', None, None, None, False, None, False, None, None, False, None, None, None, False, False)"
  using column_change_detection [where s = "int_column\<lparr>c_is_nullable := Some (PStr ''YES'')\<rparr>"
      and t = int_column and p = "Some 7" and d = "''int''"
      and source_columns = "[int_column\<lparr>c_is_nullable := Some (PStr ''YES'')\<rparr>]"
      and target_columns = "[int_column]"]
    column_change_detection [where s = "int_column\<lparr>c_is_identity := Some True, c_identity_seed := Some 5\<rparr>"
      and t = "int_column\<lparr>c_is_identity := Some True, c_identity_seed := Some 1\<rparr>"
      and p = "Some 7" and d = "''int''"
      and source_columns = "[int_column\<lparr>c_is_identity := Some True, c_identity_seed := Some 5\<rparr>]"
      and target_columns = "[int_column\<lparr>c_is_identity := Some True, c_identity_seed := Some 1\<rparr>]"]
  by (simp add: int_column_def changed_columns_def compare_columns_def columns_by_name_def
      column_signature_def is_nullable_def py_upper_def py_strip_def is_space_def upper_char_def
      get_flag_def or_empty_def py_lower_def lower_char_def)


section \<open>The schema comparator\<close>

text \<open>
  An object-detail record is an arbitrary JSON-like value for the comparator, which only
  tests its truth value and hands it to \<open>DeepDiff\<close>.
\<close>

datatype jval = JNone | JBool bool | JInt int | JStr string | JList "jval list"
  | JDict "(string \<times> jval) list"

text \<open>Python's truth value of an object.\<close>

fun truthy :: "jval \<Rightarrow> bool" where
  "truthy JNone = False"
| "truthy (JBool b) = b"
| "truthy (JInt i) = (i \<noteq> 0)"
| "truthy (JStr s) = (s \<noteq> [])"
| "truthy (JList xs) = (xs \<noteq> [])"
| "truthy (JDict kvs) = (kvs \<noteq> [])"

text \<open>
  A dictionary is an association list holding each key once. \<open>d.get(key)\<close> is
  \<open>None\<close> on a missing key; \<open>d.get(key, {})\<close> on a dictionary of dictionaries is the
  empty dictionary there.
\<close>

definition dict_get :: "(string \<times> jval) list \<Rightarrow> string \<Rightarrow> jval" where
  "dict_get d key = (case map_of d key of None \<Rightarrow> JNone | Some v \<Rightarrow> v)"

definition get_objs ::
  "(string \<times> (string \<times> jval) list) list \<Rightarrow> string \<Rightarrow> (string \<times> jval) list" where
  "get_objs snapshot obj_type = (case map_of snapshot obj_type of None \<Rightarrow> [] | Some objs \<Rightarrow> objs)"

datatype status = IDENTICAL | DIFFERENT | MISSING_IN_TARGET | MISSING_IN_SOURCE

text \<open>
  The \<open>details\<close> of a comparison item: one record directly, or the dictionary
  \<open>{"source": src, "target": tgt, "diff": diff}\<close>.
\<close>

datatype cmp_details = Direct jval | SourceTargetDiff jval jval string

record cmp_item =
  ci_name :: string
  ci_status :: status
  ci_details :: cmp_details

text \<open>
  \<open>SchemaComparator._diff\<close>. \<open>DeepDiff\<close> is a library outside the repository and is a
  parameter \<open>deep_diff\<close>: \<open>deep_diff src tgt\<close> is \<open>None\<close> when
  \<open>DeepDiff(src, tgt, ignore_order=True)\<close> is empty, and \<open>Some js\<close> when it is not and
  \<open>js\<close> is its \<open>to_json()\<close>.
\<close>

definition diff_json :: "(jval \<Rightarrow> jval \<Rightarrow> string option) \<Rightarrow> jval \<Rightarrow> jval \<Rightarrow> string" where
  "diff_json deep_diff src tgt = (case deep_diff src tgt of None \<Rightarrow> [] | Some js \<Rightarrow> js)"

text \<open>The body of the loop over the keys of \<open>SchemaComparator.compare\<close>.\<close>

definition compare_key ::
  "(jval \<Rightarrow> jval \<Rightarrow> string option) \<Rightarrow> (string \<times> jval) list \<Rightarrow> (string \<times> jval) list
   \<Rightarrow> string \<Rightarrow> cmp_item" where
  "compare_key deep_diff src_objs tgt_objs key =
     (let src = dict_get src_objs key;
          tgt = dict_get tgt_objs key
      in if truthy src \<and> \<not> truthy tgt then
           \<lparr>ci_name = key, ci_status = MISSING_IN_TARGET, ci_details = Direct src\<rparr>
         else if truthy tgt \<and> \<not> truthy src then
           \<lparr>ci_name = key, ci_status = MISSING_IN_SOURCE, ci_details = Direct tgt\<rparr>
         else
           (let diff = diff_json deep_diff src tgt
            in if diff = [] then
                 \<lparr>ci_name = key, ci_status = IDENTICAL, ci_details = Direct src\<rparr>
               else
                 \<lparr>ci_name = key, ci_status = DIFFERENT,
                  ci_details = SourceTargetDiff src tgt diff\<rparr>))"

text \<open>\<open>sorted(set(src_objs.keys()) | set(tgt_objs.keys()))\<close>.\<close>

definition all_keys :: "(string \<times> jval) list \<Rightarrow> (string \<times> jval) list \<Rightarrow> string list" where
  "all_keys src_objs tgt_objs = sort (remdups (map fst src_objs @ map fst tgt_objs))"

definition compare_objs ::
  "(jval \<Rightarrow> jval \<Rightarrow> string option) \<Rightarrow> (string \<times> jval) list \<Rightarrow> (string \<times> jval) list
   \<Rightarrow> cmp_item list" where
  "compare_objs deep_diff src_objs tgt_objs =
     map (compare_key deep_diff src_objs tgt_objs) (all_keys src_objs tgt_objs)"

definition object_types :: "string list" where
  "object_types =
     [''tables'', ''views'', ''procedures'', ''functions'', ''triggers'', ''users'', ''roles'',
      ''schemas'', ''synonyms'', ''extended_properties'', ''check_constraints'',
      ''default_constraints'', ''unique_constraints'', ''user_defined_types'', ''sequences'']"

text \<open>\<open>SchemaComparator.compare\<close>: the result dictionary, one entry per object type.\<close>

definition compare ::
  "(jval \<Rightarrow> jval \<Rightarrow> string option) \<Rightarrow> (string \<times> (string \<times> jval) list) list
   \<Rightarrow> (string \<times> (string \<times> jval) list) list \<Rightarrow> (string \<times> cmp_item list) list" where
  "compare deep_diff source target =
     map (\<lambda>obj_type. (obj_type,
            compare_objs deep_diff (get_objs source obj_type) (get_objs target obj_type)))
         object_types"

text \<open>\<open>results[obj_type]\<close> of a result that has the key.\<close>

definition result_items :: "(string \<times> cmp_item list) list \<Rightarrow> string \<Rightarrow> cmp_item list" where
  "result_items results obj_type = (case map_of results obj_type of None \<Rightarrow> [] | Some items \<Rightarrow> items)"

subsection \<open>Properties of the comparator\<close>

lemma all_keys_sorted_distinct:
  "sorted (all_keys s t) \<and> distinct (all_keys s t) \<and> set (all_keys s t) = fst ` set s \<union> fst ` set t"
  by (auto simp: all_keys_def)

lemma compare_key_name: "ci_name (compare_key dd s t k) = k"
  by (simp add: compare_key_def Let_def)

lemma compare_objs_names: "map ci_name (compare_objs dd s t) = all_keys s t"
  by (simp add: compare_objs_def compare_key_name cong: map_cong)

lemma object_types_distinct: "distinct object_types"
  by (simp add: object_types_def)

lemma map_of_map_key:
  "k \<in> set ks \<Longrightarrow> map_of (map (\<lambda>x. (x, f x)) ks) k = Some (f k)"
  by (induction ks) auto

lemma map_of_compare:
  "obj_type \<in> set object_types \<Longrightarrow>
   map_of (compare dd source target) obj_type =
     Some (compare_objs dd (get_objs source obj_type) (get_objs target obj_type))"
  unfolding compare_def by (rule map_of_map_key)

lemma result_items_compare:
  "obj_type \<in> set object_types \<Longrightarrow>
   result_items (compare dd source target) obj_type =
     compare_objs dd (get_objs source obj_type) (get_objs target obj_type)"
  by (simp add: result_items_def map_of_compare)

text \<open>
  Claim C6. For every pair of snapshots and every object type of the comparator, the names
  of the items listed for that type are pairwise distinct, lexicographically sorted, and
  are exactly the keys of the source mapping together with those of the target mapping:
  each key of the union appears once, none is left out.
\<close>

theorem compare_keys_once_sorted:
  "obj_type \<in> set object_types \<longrightarrow>
     distinct (map ci_name (result_items (compare deep_diff source target) obj_type))
     \<and> sorted (map ci_name (result_items (compare deep_diff source target) obj_type))
     \<and> set (map ci_name (result_items (compare deep_diff source target) obj_type))
         = fst ` set (get_objs source obj_type) \<union> fst ` set (get_objs target obj_type)"
proof
  assume ot: "obj_type \<in> set object_types"
  let ?s = "get_objs source obj_type" and ?t = "get_objs target obj_type"
  have names: "map ci_name (result_items (compare deep_diff source target) obj_type) = all_keys ?s ?t"
    using ot by (simp add: result_items_compare compare_objs_names)
  show "distinct (map ci_name (result_items (compare deep_diff source target) obj_type))
     \<and> sorted (map ci_name (result_items (compare deep_diff source target) obj_type))
     \<and> set (map ci_name (result_items (compare deep_diff source target) obj_type))
         = fst ` set ?s \<union> fst ` set ?t"
    unfolding names using all_keys_sorted_distinct [of ?s ?t] by simp
qed

text \<open>
  Claim C9. Whatever the two snapshots hold, the result has the fifteen fixed object
  types as its keys, in the comparator's order and each once.
\<close>

theorem compare_result_keys:
  "map fst (compare deep_diff source target) = object_types
   \<and> length (compare deep_diff source target) = 15
   \<and> distinct (map fst (compare deep_diff source target))"
  by (simp add: compare_def comp_def object_types_def)

text \<open>
  A stand-in for \<open>DeepDiff\<close> on concrete inputs: empty on equal values, a fixed
  non-empty text otherwise.
\<close>

definition lit_diff :: "jval \<Rightarrow> jval \<Rightarrow> string option" where
  "lit_diff src tgt = (if src = tgt then None else Some ''values_changed'')"

text \<open>Two table mappings with the keys \<open>b, a\<close> and \<open>c, a\<close> give the items \<open>a, b, c\<close>.\<close>

theorem compare_keys_once_sorted_witness:
  "''tables'' \<in> set object_types
   \<and> map ci_name (result_items
         (compare lit_diff
            [(''tables'', [(''dbo.b'', JDict [(''v'', JInt 1)]), (''dbo.a'', JDict [(''v'', JInt 2)])])]
            [(''tables'', [(''dbo.c'', JDict [(''v'', JInt 1)]), (''dbo.a'', JDict [(''v'', JInt 3)])])])
         ''tables'')
       = [''dbo.a'', ''dbo.b'', ''dbo.c'']"
  using compare_keys_once_sorted [of "''tables''" lit_diff
      "[(''tables'', [(''dbo.b'', JDict [(''v'', JInt 1)]), (''dbo.a'', JDict [(''v'', JInt 2)])])]"
      "[(''tables'', [(''dbo.c'', JDict [(''v'', JInt 1)]), (''dbo.a'', JDict [(''v'', JInt 3)])])]"]
  by (simp add: object_types_def get_objs_def result_items_def compare_def compare_objs_def
      all_keys_def compare_key_def dict_get_def Let_def)




text \<open>
  On records that are true in Python's sense (a non-empty dictionary), the classification
  of a key is the one the data model describes.
\<close>

lemma compare_key_truthy:
  assumes "truthy src_rec" and "truthy tgt_rec"
  shows "map_of src_objs key = Some src_rec \<and> map_of tgt_objs key = None \<longrightarrow>
           compare_key deep_diff src_objs tgt_objs key
             = \<lparr>ci_name = key, ci_status = MISSING_IN_TARGET, ci_details = Direct src_rec\<rparr>"
    and "map_of src_objs key = None \<and> map_of tgt_objs key = Some tgt_rec \<longrightarrow>
           compare_key deep_diff src_objs tgt_objs key
             = \<lparr>ci_name = key, ci_status = MISSING_IN_SOURCE, ci_details = Direct tgt_rec\<rparr>"
    and "map_of src_objs key = Some src_rec \<and> map_of tgt_objs key = Some tgt_rec \<longrightarrow>
           compare_key deep_diff src_objs tgt_objs key
             = (if diff_json deep_diff src_rec tgt_rec = []
                then \<lparr>ci_name = key, ci_status = IDENTICAL, ci_details = Direct src_rec\<rparr>
                else \<lparr>ci_name = key, ci_status = DIFFERENT,
                      ci_details = SourceTargetDiff src_rec tgt_rec (diff_json deep_diff src_rec tgt_rec)\<rparr>)"
  using assms by (auto simp: compare_key_def dict_get_def Let_def)






text \<open>
  Outside the data model, at a key whose only record, on the source side, is the empty
  dictionary: \<open>src and not tgt\<close> is false on it, so the key falls through to the diff
  branch and is reported \<open>IDENTICAL\<close> or \<open>DIFFERENT\<close> (as \<open>DeepDiff({}, None)\<close> decides).
\<close>

lemma compare_empty_record_only_in_source:
  "result_items (compare deep_diff [(''tables'', [(''dbo.T'', JDict [])])] [(''tables'', [])]) ''tables''
     = [if diff_json deep_diff (JDict []) JNone = []
        then \<lparr>ci_name = ''dbo.T'', ci_status = IDENTICAL, ci_details = Direct (JDict [])\<rparr>
        else \<lparr>ci_name = ''dbo.T'', ci_status = DIFFERENT,
              ci_details = SourceTargetDiff (JDict []) JNone (diff_json deep_diff (JDict []) JNone)\<rparr>]
   \<and> map ci_status (result_items
         (compare deep_diff [(''tables'', [(''dbo.T'', JDict [])])] [(''tables'', [])]) ''tables'')
       \<noteq> [MISSING_IN_TARGET]"
proof -
  have ot: "''tables'' \<in> set object_types" by (simp add: object_types_def)
  show ?thesis
    by (simp add: result_items_compare [OF ot] get_objs_def compare_objs_def all_keys_def
        compare_key_def dict_get_def Let_def)
qed


section \<open>The line diff\<close>

text \<open>
  \<open>str.splitlines()\<close> on ASCII text: a line ends at \<open>\n\<close>, \<open>\r\<close>, \<open>\r\n\<close>, or one of
  the code points 11, 12, 28, 29, 30; the line ends are dropped, and text after the last
  line end is a line when it is not empty.
\<close>

definition is_line_end :: "char \<Rightarrow> bool" where
  "is_line_end c = (c \<in> set [CHR 0x0A, CHR 0x0B, CHR 0x0C, CHR 0x0D, CHR 0x1C, CHR 0x1D, CHR 0x1E])"

fun split_lines :: "string \<Rightarrow> string \<Rightarrow> string list" where
  "split_lines cur [] = (if cur = [] then [] else [cur])"
| "split_lines cur [c] = (if is_line_end c then [cur] else [cur @ [c]])"
| "split_lines cur (c # d # cs) =
     (if c = CHR 0x0D \<and> d = CHR 0x0A then cur # split_lines [] cs
      else if is_line_end c then cur # split_lines [] (d # cs)
      else split_lines (cur @ [c]) (d # cs))"

definition py_splitlines :: "string \<Rightarrow> string list" where
  "py_splitlines s = split_lines [] s"

text \<open>
  The opcodes of \<open>difflib.SequenceMatcher.get_opcodes()\<close>: a tag and the two half-open
  ranges \<open>a0:a1\<close> of the source lines and \<open>b0:b1\<close> of the target lines. The matcher is the
  standard library's and is a parameter of the model.
\<close>

datatype opcode_tag = Equal | Insert | Delete | Replace

type_synonym opcode = "opcode_tag \<times> nat \<times> nat \<times> nat \<times> nat"

type_synonym diff_row = "string \<times> string \<times> string"

datatype py_error = IndexError

text \<open>\<open>xs[i]\<close> for an index that is not negative: out of range it raises.\<close>

definition index :: "'a list \<Rightarrow> nat \<Rightarrow> py_error + 'a" where
  "index xs i = (if i < length xs then Inr (xs ! i) else Inl IndexError)"

text \<open>Running the iterations of a loop in order until one raises.\<close>

fun collect :: "(py_error + 'a) list \<Rightarrow> py_error + 'a list" where
  "collect [] = Inr []"
| "collect (r # rs) =
     (case r of
        Inl e \<Rightarrow> Inl e
      | Inr x \<Rightarrow> (case collect rs of Inl e \<Rightarrow> Inl e | Inr xs \<Rightarrow> Inr (x # xs)))"

text \<open>The rows one opcode appends: a branch of the loop of \<open>DiffGenerator.side_by_side\<close>.\<close>

fun opcode_rows :: "string list \<Rightarrow> string list \<Rightarrow> opcode \<Rightarrow> py_error + diff_row list" where
  "opcode_rows source target (Equal, a0, a1, b0, b1) =
     collect (map (\<lambda>i. case index source i of
                          Inl e \<Rightarrow> Inl e
                        | Inr l \<Rightarrow> (case index target (b0 + (i - a0)) of
                                     Inl e \<Rightarrow> Inl e
                                   | Inr r \<Rightarrow> Inr (l, r, ''same''))) [a0..<a1])"
| "opcode_rows source target (Insert, a0, a1, b0, b1) =
     collect (map (\<lambda>j. case index target j of
                          Inl e \<Rightarrow> Inl e
                        | Inr r \<Rightarrow> Inr ([], r, ''del'')) [b0..<b1])"
| "opcode_rows source target (Delete, a0, a1, b0, b1) =
     collect (map (\<lambda>i. case index source i of
                          Inl e \<Rightarrow> Inl e
                        | Inr l \<Rightarrow> Inr (l, [], ''add'')) [a0..<a1])"
| "opcode_rows source target (Replace, a0, a1, b0, b1) =
     (let max_len = max (a1 - a0) (b1 - b0)
      in collect (map (\<lambda>k.
           case (if a0 + k < a1 then index source (a0 + k) else Inr []) of
             Inl e \<Rightarrow> Inl e
           | Inr left \<Rightarrow>
               (case (if b0 + k < b1 then index target (b0 + k) else Inr []) of
                  Inl e \<Rightarrow> Inl e
                | Inr right \<Rightarrow> Inr (left, right, ''chg''))) [0..<max_len]))"

text \<open>
  \<open>DiffGenerator(source_sql, target_sql).side_by_side()\<close>; \<open>None\<close> for a text stands for
  the empty text (\<open>source_sql or ""\<close>).
\<close>

definition side_by_side ::
  "(string list \<Rightarrow> string list \<Rightarrow> opcode list) \<Rightarrow> string option \<Rightarrow> string option
   \<Rightarrow> py_error + diff_row list" where
  "side_by_side get_opcodes source_sql target_sql =
     (let source = py_splitlines (or_empty source_sql);
          target = py_splitlines (or_empty target_sql)
      in case collect (map (opcode_rows source target) (get_opcodes source target)) of
           Inl e \<Rightarrow> Inl e
         | Inr rowss \<Rightarrow> Inr (concat rowss))"

text \<open>
  What the matcher guarantees of an opcode: both ranges lie inside their texts, and an
  \<open>equal\<close> span has the same lines on both sides.
\<close>

definition in_range :: "string list \<Rightarrow> string list \<Rightarrow> opcode \<Rightarrow> bool" where
  "in_range source target op =
     (case op of (tag, a0, a1, b0, b1) \<Rightarrow>
        a0 \<le> a1 \<and> a1 \<le> length source \<and> b0 \<le> b1 \<and> b1 \<le> length target
        \<and> (tag \<noteq> Equal \<or> take (a1 - a0) (drop a0 source) = take (b1 - b0) (drop b0 target)))"

text \<open>The rows of a span as the specification lays them out.\<close>

fun span_rows :: "string list \<Rightarrow> string list \<Rightarrow> opcode \<Rightarrow> diff_row list" where
  "span_rows source target (Equal, a0, a1, b0, b1) =
     map (\<lambda>i. (source ! i, source ! i, ''same'')) [a0..<a1]"
| "span_rows source target (Insert, a0, a1, b0, b1) =
     map (\<lambda>j. ([], target ! j, ''del'')) [b0..<b1]"
| "span_rows source target (Delete, a0, a1, b0, b1) =
     map (\<lambda>i. (source ! i, [], ''add'')) [a0..<a1]"
| "span_rows source target (Replace, a0, a1, b0, b1) =
     map (\<lambda>k. (if k < a1 - a0 then source ! (a0 + k) else [],
               if k < b1 - b0 then target ! (b0 + k) else [], ''chg''))
         [0..<max (a1 - a0) (b1 - b0)]"

subsection \<open>Properties of the line diff\<close>

lemma collect_map_Inr:
  "(\<And>x. x \<in> set xs \<Longrightarrow> f x = Inr (g x)) \<Longrightarrow> collect (map f xs) = Inr (map g xs)"
  by (induction xs) auto

lemma equal_span_lines:
  assumes "take (a1 - a0) (drop a0 source) = take (b1 - b0) (drop b0 target)"
    and "a0 \<le> a1" "a1 \<le> length source" "b0 \<le> b1" "b1 \<le> length target"
    and "a0 \<le> i" "i < a1"
  shows "b0 + (i - a0) < length target \<and> target ! (b0 + (i - a0)) = source ! i"
proof -
  let ?l = "take (a1 - a0) (drop a0 source)" and ?r = "take (b1 - b0) (drop b0 target)"
  have "length ?l = a1 - a0" "length ?r = b1 - b0"
    using assms(2-5) by simp_all
  with arg_cong [OF assms(1), of length] have len: "a1 - a0 = b1 - b0" by simp
  have k: "i - a0 < a1 - a0" using assms by arith
  then have "?l ! (i - a0) = source ! i" using assms(2-7) by simp
  moreover have "?r ! (i - a0) = target ! (b0 + (i - a0))" using k len assms(2-7) by simp
  ultimately have "target ! (b0 + (i - a0)) = source ! i" using assms(1) by simp
  moreover have "b0 + (i - a0) < length target" using k len assms by arith
  ultimately show ?thesis by simp
qed

lemma opcode_rows_in_range:
  assumes "in_range source target op"
  shows "opcode_rows source target op = Inr (span_rows source target op)"
proof -
  obtain tag a0 a1 b0 b1 where op: "op = (tag, a0, a1, b0, b1)"
    by (cases op) auto
  from assms op have r: "a0 \<le> a1" "a1 \<le> length source" "b0 \<le> b1" "b1 \<le> length target"
    by (simp_all add: in_range_def)
  show ?thesis
  proof (cases tag)
    case Equal
    with assms op have eq: "take (a1 - a0) (drop a0 source) = take (b1 - b0) (drop b0 target)"
      by (simp add: in_range_def)
    show ?thesis
      unfolding op Equal opcode_rows.simps span_rows.simps
    proof (rule collect_map_Inr)
      fix i assume "i \<in> set [a0..<a1]"
      then have i: "a0 \<le> i" "i < a1" by simp_all
      from equal_span_lines [OF eq r i] i r
      show "(case index source i of Inl e \<Rightarrow> Inl e
             | Inr l \<Rightarrow> (case index target (b0 + (i - a0)) of Inl e \<Rightarrow> Inl e
                        | Inr r \<Rightarrow> Inr (l, r, ''same'')))
            = Inr (source ! i, source ! i, ''same'')"
        by (simp add: index_def)
    qed
  next
    case Insert
    show ?thesis
      unfolding op Insert opcode_rows.simps span_rows.simps
      by (rule collect_map_Inr) (use r in \<open>simp add: index_def\<close>)
  next
    case Delete
    show ?thesis
      unfolding op Delete opcode_rows.simps span_rows.simps
      by (rule collect_map_Inr) (use r in \<open>simp add: index_def\<close>)
  next
    case Replace
    show ?thesis
      unfolding op Replace opcode_rows.simps span_rows.simps Let_def
      by (rule collect_map_Inr) (use r in \<open>auto simp add: index_def\<close>)
  qed
qed

text \<open>
  Claim C4. For every pair of texts, when the opcodes of the matcher lie inside the two
  line lists, \<open>side_by_side\<close> returns, span after span, the rows of \<open>span_rows\<close>: an
  insert span gives one row per target line with an empty left side and the tag \<open>del\<close>;
  a delete span one row per source line with an empty right side and the tag \<open>add\<close>; a
  replace span pairs the two blocks by position up to the longer one, an empty text
  standing in on the shorter side, every row tagged \<open>chg\<close>; an equal span gives the same
  line on both sides with the tag \<open>same\<close>.
\<close>

theorem side_by_side_rows:
  assumes "source = py_splitlines (or_empty source_sql)"
    and "target = py_splitlines (or_empty target_sql)"
    and "\<forall>op \<in> set (get_opcodes source target). in_range source target op"
  shows "side_by_side get_opcodes source_sql target_sql
           = Inr (concat (map (span_rows source target) (get_opcodes source target)))"
proof -
  have "collect (map (opcode_rows source target) (get_opcodes source target))
          = Inr (map (span_rows source target) (get_opcodes source target))"
    by (rule collect_map_Inr) (use assms(3) in \<open>simp add: opcode_rows_in_range\<close>)
  then show ?thesis
    by (simp add: side_by_side_def assms(1,2) [symmetric])
qed

text \<open>
  The texts \<open>"Line 1\\nLine 9"\<close> and \<open>"Line 1\\nLine 2\\nLine 3"\<close> under an equal, an insert,
  a replace (empty on the source side) and a delete span.
\<close>

theorem side_by_side_rows_witness:
  "side_by_side (\<lambda>a b. [(Equal, 0, 1, 0, 1), (Insert, 1, 1, 1, 2), (Replace, 1, 1, 2, 3), (Delete, 1, 2, 3, 3)])
       (Some (''Line 1'' @ [CHR 0x0A] @ ''Line 9'')) (Some (''Line 1'' @ [CHR 0x0A] @ ''Line 2'' @ [CHR 0x0A] @ ''Line 3''))
     = Inr [(''Line 1'', ''Line 1'', ''same''), ([], ''Line 2'', ''del''), ([], ''Line 3'', ''chg''),
            (''Line 9'', [], ''add'')]"
proof -
  let ?m = "\<lambda>a b :: string list. [(Equal, 0, 1, 0, 1), (Insert, 1, 1, 1, 2), (Replace, 1, 1, 2, 3), (Delete, 1, 2, 3, 3) :: opcode]"
  let ?s = "Some (''Line 1'' @ [CHR 0x0A] @ ''Line 9'')"
  let ?t = "Some (''Line 1'' @ [CHR 0x0A] @ ''Line 2'' @ [CHR 0x0A] @ ''Line 3'')"
  have s: "py_splitlines (or_empty ?s) = [''Line 1'', ''Line 9'']"
    by (simp add: py_splitlines_def or_empty_def is_line_end_def)
  have t: "py_splitlines (or_empty ?t) = [''Line 1'', ''Line 2'', ''Line 3'']"
    by (simp add: py_splitlines_def or_empty_def is_line_end_def)
  have r: "\<forall>op \<in> set (?m [''Line 1'', ''Line 9''] [''Line 1'', ''Line 2'', ''Line 3'']).
            in_range [''Line 1'', ''Line 9''] [''Line 1'', ''Line 2'', ''Line 3''] op"
    by (simp add: in_range_def)
  from side_by_side_rows [of "[''Line 1'', ''Line 9'']" ?s "[''Line 1'', ''Line 2'', ''Line 3'']" ?t ?m,
      OF s [symmetric] t [symmetric] r]
  show ?thesis by (simp add: numeral_eq_Suc)
qed


section \<open>The deployment script generator: data\<close>

text \<open>
  The records the generator reads. A missing key is \<open>None\<close> for an optional field and the
  empty list for a list field (\<open>d.get(k, [])\<close>); names are texts, empty when missing
  (\<open>d.get("name", "")\<close>).
\<close>

record primary_key =
  pk_name :: string
  pk_columns :: "string list"

record foreign_key =
  fk_name :: string
  fk_columns :: "string list"
  fk_referenced_table :: string
  fk_referenced_columns :: "string list"
  fk_delete_rule :: "string option"
  fk_update_rule :: "string option"

record index_rec =
  ix_name :: string
  ix_columns :: "string list"
  ix_included_columns :: "string list"
  ix_is_unique :: bool
  ix_is_primary_key :: bool
  ix_type_desc :: "string option"

text \<open>
  An object-detail record, with the keys of every category the generator reads:
  \<open>columns\<close>, \<open>indexes\<close>, \<open>primary_key\<close>, \<open>foreign_keys\<close> of a table; \<open>definition\<close> of a
  view, procedure, function, trigger or check or default constraint; \<open>base_object_name\<close>
  of a synonym; \<open>columns\<close> of a unique constraint (a list of names, here
  \<open>od_key_columns\<close>); \<open>column\<close> of a default constraint.
\<close>

record object_detail =
  od_columns :: "column list"
  od_indexes :: "index_rec list"
  od_primary_key :: "primary_key option"
  od_foreign_keys :: "foreign_key list"
  od_definition :: "string option"
  od_base_object_name :: "string option"
  od_key_columns :: "string list"
  od_column :: "string option"

text \<open>The empty dictionary \<open>{}\<close> as an object-detail record.\<close>

definition empty_detail :: object_detail where
  "empty_detail = \<lparr>od_columns = [], od_indexes = [], od_primary_key = None,
     od_foreign_keys = [], od_definition = None, od_base_object_name = None,
     od_key_columns = [], od_column = None\<rparr>"

text \<open>
  The \<open>details\<close> of a comparison item, as the data model has them: the record itself
  (\<open>Single\<close>: statuses \<open>MISSING_IN_TARGET\<close>, \<open>MISSING_IN_SOURCE\<close>, \<open>IDENTICAL\<close>), or the
  dictionary \<open>{"source": .., "target": .., "diff": ..}\<close> (\<open>SourceTarget\<close>: status
  \<open>DIFFERENT\<close>).
\<close>

datatype details = Single object_detail | SourceTarget object_detail object_detail string

text \<open>
  \<open>details.get("source", {})\<close> and \<open>details.get("target", {})\<close>: a single record has no
  such key, and the result is the empty dictionary. \<open>details_record\<close> is \<open>details\<close> read
  as the record itself (\<open>details.get("primary_key")\<close>, ...): the source/target/diff
  dictionary has none of the record's keys.
\<close>

definition details_source :: "details \<Rightarrow> object_detail" where
  "details_source d = (case d of Single r \<Rightarrow> empty_detail | SourceTarget s t df \<Rightarrow> s)"

definition details_target :: "details \<Rightarrow> object_detail" where
  "details_target d = (case d of Single r \<Rightarrow> empty_detail | SourceTarget s t df \<Rightarrow> t)"

definition details_record :: "details \<Rightarrow> object_detail" where
  "details_record d = (case d of Single r \<Rightarrow> r | SourceTarget s t df \<Rightarrow> empty_detail)"

record item =
  i_name :: string
  i_status :: status
  i_details :: details

record deploy_options =
  wrap_in_transaction :: bool
  include_drop_phase :: bool
  include_table_phase :: bool
  include_constraint_phase :: bool
  include_programmability_phase :: bool
  include_misc_phase :: bool
  include_rollback_section :: bool

text \<open>The state of a \<open>ScriptGenerator\<close> object, set by \<open>__init__\<close>.\<close>

record script_generator =
  results :: "(string \<times> item list) list"
  source_metadata :: "(string \<times> (string \<times> object_detail) list) list"
  target_db :: string
  options :: deploy_options

text \<open>\<open>self.results.get(obj_type, [])\<close>.\<close>

definition results_get :: "script_generator \<Rightarrow> string \<Rightarrow> item list" where
  "results_get self obj_type = (case map_of (results self) obj_type of None \<Rightarrow> [] | Some items \<Rightarrow> items)"

text \<open>A dictionary built from key-value pairs in order (a repeated key keeps its place).\<close>

definition py_dict :: "('k \<times> 'v) list \<Rightarrow> ('k \<times> 'v) list" where
  "py_dict kvs = fold (\<lambda>(k, v) d. AList.update k v d) kvs []"

text \<open>The apostrophe and the line feed, and \<open>s.split(sep)\<close>, \<open>s.rsplit(sep, 1)\<close>, \<open>s.replace\<close> on one character.\<close>

definition sq :: string where
  "sq = [CHR 0x27]"

definition nl :: string where
  "nl = [CHR 0x0A]"

fun py_split :: "char \<Rightarrow> string \<Rightarrow> string list" where
  "py_split sep [] = [[]]"
| "py_split sep (c # cs) =
     (if c = sep then [] # py_split sep cs
      else (case py_split sep cs of [] \<Rightarrow> [[c]] | p # ps \<Rightarrow> (c # p) # ps))"

definition py_rsplit1 :: "char \<Rightarrow> string \<Rightarrow> string list" where
  "py_rsplit1 sep s =
     (if sep \<in> set s
      then [rev (tl (dropWhile (\<lambda>c. c \<noteq> sep) (rev s))), rev (takeWhile (\<lambda>c. c \<noteq> sep) (rev s))]
      else [s])"

definition py_replace_char :: "char \<Rightarrow> char \<Rightarrow> string \<Rightarrow> string" where
  "py_replace_char old new s = map (\<lambda>c. if c = old then new else c) s"

definition bracket_list :: "string list \<Rightarrow> string" where
  "bracket_list cols = py_join '', '' (map (\<lambda>col. ''['' @ col @ '']'') cols)"

definition rule_line :: string where
  "rule_line = ''-- ==============================================================================''"


section \<open>The deployment script generator: statements\<close>

text \<open>\<open>ScriptGenerator._drop_statement\<close>.\<close>

definition drop_statement :: "string \<Rightarrow> string \<Rightarrow> string list" where
  "drop_statement obj_type name =
     (if obj_type = ''views'' then
        [''IF OBJECT_ID('' @ sq @ name @ sq @ '', '' @ sq @ ''V'' @ sq @ '') IS NOT NULL DROP VIEW '' @ name @ '';'', ''GO'', '''']
      else if obj_type = ''procedures'' then
        [''IF OBJECT_ID('' @ sq @ name @ sq @ '', '' @ sq @ ''P'' @ sq @ '') IS NOT NULL DROP PROCEDURE '' @ name @ '';'', ''GO'', '''']
      else if obj_type = ''functions'' then
        [''IF OBJECT_ID('' @ sq @ name @ sq @ '', '' @ sq @ ''FN'' @ sq @ '') IS NOT NULL DROP FUNCTION '' @ name @ '';'', ''GO'', '''']
      else if obj_type = ''triggers'' then
        [''IF OBJECT_ID('' @ sq @ name @ sq @ '', '' @ sq @ ''TR'' @ sq @ '') IS NOT NULL DROP TRIGGER '' @ name @ '';'', ''GO'', '''']
      else if obj_type = ''synonyms'' then
        [''IF OBJECT_ID('' @ sq @ name @ sq @ '', '' @ sq @ ''SN'' @ sq @ '') IS NOT NULL DROP SYNONYM '' @ name @ '';'', ''GO'', '''']
      else if obj_type = ''tables'' then
        [''IF OBJECT_ID('' @ sq @ name @ sq @ '', '' @ sq @ ''U'' @ sq @ '') IS NOT NULL DROP TABLE '' @ name @ '';'', ''GO'', '''']
      else [''-- TODO: drop '' @ butlast obj_type @ '' '' @ name, ''''])"

text \<open>\<open>ScriptGenerator._format_column_type\<close>.\<close>

definition format_column_type :: "column \<Rightarrow> string" where
  "format_column_type col =
     (let data_type = py_lower (or_empty (c_data_type col));
          max_len = c_max_length col;
          precision = c_precision col;
          scale = c_scale col;
          type_str = py_upper data_type
      in if data_type \<in> set [''varchar'', ''nvarchar'', ''char'', ''nchar'', ''binary'', ''varbinary''] then
           (if max_len = Some (- 1) then type_str @ ''(MAX)''
            else (case max_len of
                    None \<Rightarrow> type_str
                  | Some n \<Rightarrow> if n \<noteq> 0 \<and> n > 0 then type_str @ ''('' @ str_int n @ '')'' else type_str))
         else
           (case precision of
              None \<Rightarrow> type_str
            | Some p \<Rightarrow>
                if data_type \<in> set [''decimal'', ''numeric''] \<and> p \<noteq> 0 then
                  (case scale of
                     Some sc \<Rightarrow> type_str @ ''('' @ str_int p @ '','' @ str_int sc @ '')''
                   | None \<Rightarrow> type_str @ ''('' @ str_int p @ '')'')
                else type_str))"

text \<open>\<open>ScriptGenerator._format_full_column_definition\<close>.\<close>

definition format_full_column_definition :: "column \<Rightarrow> string" where
  "format_full_column_definition col =
     (let col_name = or_empty (c_name col)
      in if get_flag (c_is_computed col) then
           ''['' @ col_name @ ''] AS '' @ or_empty (c_computed_definition col)
             @ (if get_flag (c_is_persisted col) then '' PERSISTED'' else '''')
         else
           py_join '' ''
             ([''['' @ col_name @ '']'', format_column_type col]
              @ (case c_collation col of
                   None \<Rightarrow> []
                 | Some coll \<Rightarrow> if coll = [] then [] else [''COLLATE '' @ coll])
              @ (if get_flag (c_is_sparse col) then [''SPARSE''] else [])
              @ [nullable_str col]
              @ (if get_flag (c_is_identity col) then
                   [''IDENTITY(''
                      @ str_int (case c_identity_seed col of None \<Rightarrow> 1 | Some seed \<Rightarrow> seed) @ '',''
                      @ str_int (case c_identity_increment col of None \<Rightarrow> 1 | Some incr \<Rightarrow> incr)
                      @ '')'']
                 else [])
              @ (if get_flag (c_is_rowguidcol col) then [''ROWGUIDCOL''] else [])
              @ (case c_default_value col of
                   None \<Rightarrow> []
                 | Some default_val \<Rightarrow> if default_val = [] then [] else [''DEFAULT '' @ default_val])))"

text \<open>
  \<open>ScriptGenerator._create_table_statement\<close> (the class defines it twice, with the same
  body): the columns come from the source metadata.
\<close>

definition source_table_columns :: "script_generator \<Rightarrow> string \<Rightarrow> column list" where
  "source_table_columns self table_name =
     (let tables_metadata = (case map_of (source_metadata self) ''tables'' of None \<Rightarrow> [] | Some m \<Rightarrow> m);
          table_data = (case map_of tables_metadata table_name of None \<Rightarrow> empty_detail | Some d \<Rightarrow> d)
      in od_columns table_data)"

definition create_table_statement :: "script_generator \<Rightarrow> string \<Rightarrow> string list" where
  "create_table_statement self table_name =
     (let columns = source_table_columns self table_name
      in if columns = [] then
           [''-- TODO: CREATE TABLE '' @ table_name @ '' (no column metadata available)'']
         else
           [''PRINT '' @ sq @ ''Creating table '' @ table_name @ ''...'' @ sq @ '';'',
            ''CREATE TABLE '' @ table_name @ '' ('',
            py_join ('','' @ nl) (map (\<lambda>col. ''    '' @ format_full_column_definition col) columns),
            '');'',
            ''GO'',
            ''''])"

text \<open>\<open>ScriptGenerator._alter_table_columns\<close>.\<close>

definition alter_changed_column :: "string \<Rightarrow> column \<times> column \<Rightarrow> string list" where
  "alter_changed_column table_name pair =
     (case pair of (src_col, tgt_col) \<Rightarrow>
        let col_name = or_empty (c_name src_col);
            src_identity = get_flag (c_is_identity src_col);
            tgt_identity = get_flag (c_is_identity tgt_col);
            src_computed = get_flag (c_is_computed src_col);
            tgt_computed = get_flag (c_is_computed tgt_col)
        in if src_identity \<noteq> tgt_identity \<or> src_computed \<noteq> tgt_computed then
             [''-- WARNING: Cannot ALTER identity/computed column ['' @ col_name @ '']. Using DROP + ADD pattern.'',
              ''-- This may cause data loss. Consider manual migration if data preservation is needed.'',
              ''ALTER TABLE '' @ table_name @ '' DROP COLUMN ['' @ col_name @ ''];'',
              ''ALTER TABLE '' @ table_name @ '' ADD '' @ format_full_column_definition src_col @ '';'']
           else
             (let type_str = format_column_type src_col;
                  collation_changed = (c_collation src_col \<noteq> c_collation tgt_col);
                  collate_clause =
                    (if or_empty (c_collation src_col) \<noteq> [] \<and> collation_changed
                     then '' COLLATE '' @ or_empty (c_collation src_col) else '''')
              in [''-- NOTE: Changing definition of column ['' @ col_name @ ''] on '' @ table_name
                    @ ''. Review for potential data impact.'',
                  ''ALTER TABLE '' @ table_name @ '' ALTER COLUMN ['' @ col_name @ ''] '' @ type_str
                    @ collate_clause @ '' '' @ nullable_str src_col @ '';'']))"

definition alter_table_columns :: "string \<Rightarrow> details \<Rightarrow> string list" where
  "alter_table_columns table_name details =
     (if length (py_split CHR ''.'' table_name) \<noteq> 2 then
        [''-- Unable to ALTER TABLE '' @ table_name @ '' (invalid name format)'']
      else
        (case compare_columns (od_columns (details_source details)) (od_columns (details_target details)) of
           (added, removed, changed) \<Rightarrow>
             if added = [] \<and> removed = [] \<and> changed = [] then
               [''PRINT '' @ sq @ ''Modifying table '' @ table_name @ ''...'' @ sq @ '';'',
                ''-- No column-level differences detected for '' @ table_name,
                '''']
             else
               [''PRINT '' @ sq @ ''Modifying table '' @ table_name @ ''...'' @ sq @ '';'']
               @ map (\<lambda>col. ''ALTER TABLE '' @ table_name @ '' ADD '' @ format_full_column_definition col @ '';'') added
               @ concat (map (\<lambda>col.
                   [''-- WARNING: Dropping column ['' @ or_empty (c_name col) @ ''] from '' @ table_name
                      @ '' may cause data loss.'',
                    ''ALTER TABLE '' @ table_name @ '' DROP COLUMN ['' @ or_empty (c_name col) @ ''];'']) removed)
               @ concat (map (alter_changed_column table_name) changed)
               @ ['''']))"

text \<open>\<open>ScriptGenerator._create_primary_key_from_table_metadata\<close>.\<close>

definition create_primary_key_from_table_metadata :: "string \<Rightarrow> primary_key \<Rightarrow> string list" where
  "create_primary_key_from_table_metadata table_name pk =
     (if pk_columns pk = [] then
        [''-- TODO: CREATE PRIMARY KEY on '' @ table_name @ '' (no column information)'']
      else
        [''PRINT '' @ sq @ ''Adding primary key '' @ pk_name pk @ '' on '' @ table_name @ ''...'' @ sq @ '';'',
         ''ALTER TABLE '' @ table_name @ '' ADD CONSTRAINT ['' @ pk_name pk @ ''] PRIMARY KEY (''
           @ bracket_list (pk_columns pk) @ '');'',
         ''GO'',
         ''''])"

text \<open>
  \<open>ScriptGenerator._create_unique_constraint_statement\<close>,
  \<open>_create_check_constraint_statement\<close> and \<open>_create_default_constraint_statement\<close>:
  each reads \<open>details.get("source", {})\<close> of its item.
\<close>

definition create_unique_constraint_statement :: "item \<Rightarrow> string list" where
  "create_unique_constraint_statement uq_item =
     (let name = i_name uq_item;
          source_uq = details_source (i_details uq_item);
          columns = od_key_columns source_uq
      in if columns = [] then
           [''-- TODO: CREATE UNIQUE CONSTRAINT '' @ name @ '' (no column information)'']
         else
           (case py_rsplit1 CHR ''.'' name of
              [table_name, uq_name] \<Rightarrow>
                [''ALTER TABLE '' @ table_name @ '' ADD CONSTRAINT ['' @ uq_name @ ''] UNIQUE (''
                   @ bracket_list columns @ '');'',
                 '''']
            | _ \<Rightarrow> [''-- TODO: CREATE UNIQUE CONSTRAINT '' @ name @ '' (invalid name format)'']))"

definition create_check_constraint_statement :: "item \<Rightarrow> string list" where
  "create_check_constraint_statement chk_item =
     (let name = i_name chk_item;
          source_chk = details_source (i_details chk_item);
          definition = or_empty (od_definition source_chk)
      in if definition = [] then
           [''-- TODO: CREATE CHECK CONSTRAINT '' @ name @ '' (no definition)'']
         else
           (case py_rsplit1 CHR ''.'' name of
              [table_name, chk_name] \<Rightarrow>
                [''ALTER TABLE '' @ table_name @ '' ADD CONSTRAINT ['' @ chk_name @ ''] CHECK ''
                   @ definition @ '';'',
                 '''']
            | _ \<Rightarrow> [''-- TODO: CREATE CHECK CONSTRAINT '' @ name @ '' (invalid name format)'']))"

definition create_default_constraint_statement :: "item \<Rightarrow> string list" where
  "create_default_constraint_statement df_item =
     (let name = i_name df_item;
          source_df = details_source (i_details df_item);
          column = or_empty (od_column source_df);
          definition = or_empty (od_definition source_df)
      in if column = [] \<or> definition = [] then
           [''-- TODO: CREATE DEFAULT CONSTRAINT '' @ name @ '' (missing information)'']
         else
           (case py_rsplit1 CHR ''.'' name of
              [table_name, df_name] \<Rightarrow>
                [''ALTER TABLE '' @ table_name @ '' ADD CONSTRAINT ['' @ df_name @ ''] DEFAULT ''
                   @ definition @ '' FOR ['' @ column @ ''];'',
                 '''']
            | _ \<Rightarrow> [''-- TODO: CREATE DEFAULT CONSTRAINT '' @ name @ '' (invalid name format)'']))"

text \<open>\<open>ScriptGenerator._create_foreign_key_from_table_metadata\<close>.\<close>

definition rule_clause :: "string \<Rightarrow> string option \<Rightarrow> string" where
  "rule_clause kw rule =
     (let r = (case rule of None \<Rightarrow> ''NO_ACTION'' | Some x \<Rightarrow> x)
      in if r = ''NO_ACTION'' then '''' else '' ON '' @ kw @ '' '' @ py_replace_char CHR ''_'' CHR '' '' r)"

definition create_foreign_key_from_table_metadata :: "string \<Rightarrow> foreign_key \<Rightarrow> string list" where
  "create_foreign_key_from_table_metadata table_name fk =
     (if fk_columns fk = [] \<or> fk_referenced_columns fk = [] then
        [''-- TODO: CREATE FOREIGN KEY '' @ fk_name fk @ '' on '' @ table_name @ '' (missing column information)'']
      else
        [''ALTER TABLE '' @ table_name @ '' ADD CONSTRAINT ['' @ fk_name fk @ ''] '',
         ''    FOREIGN KEY ('' @ bracket_list (fk_columns fk) @ '')'',
         ''    REFERENCES '' @ fk_referenced_table fk @ '' ('' @ bracket_list (fk_referenced_columns fk) @ '')''
           @ rule_clause ''DELETE'' (fk_delete_rule fk) @ rule_clause ''UPDATE'' (fk_update_rule fk) @ '';'',
         ''GO'',
         ''''])"

text \<open>
  \<open>ScriptGenerator._create_index_statement\<close> (the form for a separate index item, which
  splits the qualified name; it is given here the item's name and the index record it finds
  under \<open>details.get("source", {})\<close>) and \<open>_create_index_from_table_metadata\<close> (the
  form \<open>generate\<close> uses, which gets the table name from the table's item).
\<close>

definition index_line :: "string \<Rightarrow> string \<Rightarrow> index_rec \<Rightarrow> string" where
  "index_line table_name idx_name idx =
     ''CREATE '' @ (if ix_is_unique idx then ''UNIQUE '' else '''')
       @ (case ix_type_desc idx of None \<Rightarrow> ''NONCLUSTERED'' | Some td \<Rightarrow> td)
       @ '' INDEX ['' @ idx_name @ ''] ON '' @ table_name @ '' ('' @ bracket_list (ix_columns idx) @ '')''
       @ (if ix_included_columns idx = [] then ''''
          else '' INCLUDE ('' @ bracket_list (ix_included_columns idx) @ '')'')
       @ '';''"


definition create_index_from_table_metadata :: "string \<Rightarrow> index_rec \<Rightarrow> string list" where
  "create_index_from_table_metadata table_name idx =
     (if ix_is_primary_key idx then []
      else if ix_columns idx = [] then
        [''-- TODO: CREATE INDEX '' @ ix_name idx @ '' on '' @ table_name @ '' (no column information)'']
      else [index_line table_name (ix_name idx) idx, ''''])"

text \<open>\<open>ScriptGenerator._create_programmability_statement\<close>.\<close>

definition create_programmability_statement :: "string \<Rightarrow> string \<Rightarrow> details \<Rightarrow> string list" where
  "create_programmability_statement obj_type name details =
     (let source = details_source details;
          definition = or_empty (od_definition source)
      in if definition = [] then
           [''-- TODO: CREATE '' @ py_upper (butlast obj_type) @ '' '' @ name @ '' (no definition available)'']
         else
           [''PRINT '' @ sq @ ''Creating/modifying '' @ butlast obj_type @ '' '' @ name @ ''...'' @ sq @ '';'',
            definition,
            ''GO'',
            ''''])"

section \<open>The deployment script generator: phases\<close>

definition phase_header :: "string \<Rightarrow> string list" where
  "phase_header title = [rule_line, title, rule_line, '''']"

definition with_status :: "status \<Rightarrow> item list \<Rightarrow> item list" where
  "with_status st items = filter (\<lambda>item. i_status item = st) items"

text \<open>\<open>ScriptGenerator._generate_drop_phase\<close>.\<close>

definition fks_to_drop :: "item list \<Rightarrow> (string \<times> string) list" where
  "fks_to_drop tables =
     concat (map (\<lambda>table_item.
       if i_status table_item = MISSING_IN_SOURCE then []
       else if i_status table_item = DIFFERENT then
         (let table_name = i_name table_item;
              details = i_details table_item;
              source = details_source details;
              target = details_target details;
              source_fks = py_dict (map (\<lambda>fk. (fk_name fk, fk)) (od_foreign_keys source));
              target_fks = py_dict (map (\<lambda>fk. (fk_name fk, fk)) (od_foreign_keys target))
          in concat (map (\<lambda>(fk_name, fk).
               if map_of source_fks fk_name = None then [(table_name, fk_name)] else []) target_fks))
       else []) tables)"

definition generate_drop_phase :: "script_generator \<Rightarrow> string list" where
  "generate_drop_phase self =
     (let fks = fks_to_drop (results_get self ''tables'')
      in phase_header ''-- PHASE 1: DROP EXTRA OBJECTS (MISSING_IN_SOURCE)''
         @ (if fks = [] then []
            else [''-- Dropping '' @ str_nat (length fks) @ '' foreign keys'']
                 @ map (\<lambda>(table, fk_name).
                     ''ALTER TABLE '' @ table @ '' DROP CONSTRAINT ['' @ fk_name @ ''];'') fks
                 @ [''''])
         @ concat (map (\<lambda>obj_type.
             let items = with_status MISSING_IN_SOURCE (results_get self obj_type)
             in if items = [] then []
                else [''-- Dropping '' @ str_nat (length items) @ '' '' @ obj_type]
                     @ concat (map (\<lambda>item. drop_statement obj_type (i_name item)) items)
                     @ [''''])
             [''triggers'', ''views'', ''procedures'', ''functions'', ''synonyms'']))"

text \<open>\<open>ScriptGenerator._generate_table_phase\<close>.\<close>

definition generate_table_phase :: "script_generator \<Rightarrow> string list" where
  "generate_table_phase self =
     (let tables = results_get self ''tables'';
          new_tables = with_status MISSING_IN_TARGET tables;
          modified_tables = with_status DIFFERENT tables
      in phase_header ''-- PHASE 2: TABLES AND COLUMNS''
         @ (if new_tables = [] then []
            else [''-- Creating '' @ str_nat (length new_tables) @ '' new tables'']
                 @ concat (map (\<lambda>table. create_table_statement self (i_name table)) new_tables)
                 @ [''''])
         @ (if modified_tables = [] then []
            else [''-- Modifying '' @ str_nat (length modified_tables) @ '' existing tables'']
                 @ concat (map (\<lambda>table. alter_table_columns (i_name table) (i_details table)) modified_tables)
                 @ ['''']))"

text \<open>
  \<open>ScriptGenerator._generate_constraint_phase\<close>. The single pass over the tables fills
  three lists; the record read is the item's details for a new table and
  \<open>details.get("source", {})\<close> for a different one.
\<close>

definition constraint_tables :: "item list \<Rightarrow> (string \<times> object_detail) list" where
  "constraint_tables tables =
     concat (map (\<lambda>table_item.
       if i_status table_item = MISSING_IN_TARGET then
         [(i_name table_item, details_record (i_details table_item))]
       else if i_status table_item = DIFFERENT then
         [(i_name table_item, details_source (i_details table_item))]
       else []) tables)"

definition constraint_section :: "string \<Rightarrow> item list \<Rightarrow> (item \<Rightarrow> string list) \<Rightarrow> string list" where
  "constraint_section what items stmt =
     (let new = with_status MISSING_IN_TARGET items
      in if new = [] then []
         else [''-- Adding '' @ str_nat (length new) @ '' '' @ what]
              @ concat (map stmt new) @ [''''])"

definition generate_constraint_phase :: "script_generator \<Rightarrow> string list" where
  "generate_constraint_phase self =
     (let sources = constraint_tables (results_get self ''tables'');
          pks_to_create = concat (map (\<lambda>(table_name, src).
            case od_primary_key src of None \<Rightarrow> [] | Some pk \<Rightarrow> [(table_name, pk)]) sources);
          indexes_to_create = concat (map (\<lambda>(table_name, src).
            map (\<lambda>idx. (table_name, idx)) (od_indexes src)) sources);
          fks_to_create = concat (map (\<lambda>(table_name, src).
            map (\<lambda>fk. (table_name, fk)) (od_foreign_keys src)) sources)
      in phase_header ''-- PHASE 3: CONSTRAINTS AND INDEXES''
         @ (if pks_to_create = [] then []
            else [''-- Adding/modifying '' @ str_nat (length pks_to_create) @ '' primary keys'']
                 @ concat (map (\<lambda>(table_name, pk).
                     create_primary_key_from_table_metadata table_name pk) pks_to_create)
                 @ [''''])
         @ constraint_section ''unique constraints'' (results_get self ''unique_constraints'')
             create_unique_constraint_statement
         @ constraint_section ''check constraints'' (results_get self ''check_constraints'')
             create_check_constraint_statement
         @ constraint_section ''default constraints'' (results_get self ''default_constraints'')
             create_default_constraint_statement
         @ (if indexes_to_create = [] then []
            else [''-- Creating/modifying '' @ str_nat (length indexes_to_create) @ '' indexes'']
                 @ concat (map (\<lambda>(table_name, idx).
                     create_index_from_table_metadata table_name idx) indexes_to_create)
                 @ [''''])
         @ (if fks_to_create = [] then []
            else [''-- Adding '' @ str_nat (length fks_to_create) @ '' foreign keys'']
                 @ concat (map (\<lambda>(table_name, fk).
                     create_foreign_key_from_table_metadata table_name fk) fks_to_create)
                 @ ['''']))"

text \<open>\<open>ScriptGenerator._generate_misc_phase\<close>.\<close>

definition generate_misc_phase :: "script_generator \<Rightarrow> string list" where
  "generate_misc_phase self =
     (let synonyms = results_get self ''synonyms'';
          new_synonyms = with_status MISSING_IN_TARGET synonyms
      in phase_header ''-- PHASE 5: MISCELLANEOUS OBJECTS''
         @ (if new_synonyms = [] then []
            else [''-- Creating '' @ str_nat (length new_synonyms) @ '' synonyms'']
                 @ concat (map (\<lambda>syn.
                     let name = i_name syn;
                         details = i_details syn;
                         source_syn = details_source details;
                         base_obj = or_empty (od_base_object_name source_syn)
                     in if base_obj \<noteq> [] then
                          [''CREATE SYNONYM '' @ name @ '' FOR '' @ base_obj @ '';'', ''GO'']
                        else []) new_synonyms)
                 @ ['''']))"

section \<open>Dependency ordering of the programmable objects\<close>

text \<open>
  \<open>ScriptGenerator._ordered_programmability_items\<close>. \<open>node_by_name\<close> is the dictionary
  from the lower-cased name to the object type and item; the definition scanned for an
  item is \<open>details.get("source", {}).get("definition")\<close>, lower-cased.
\<close>

definition node_by_name :: "script_generator \<Rightarrow> (string \<times> string \<times> item) list" where
  "node_by_name self =
     py_dict (concat (map (\<lambda>obj_type.
       concat (map (\<lambda>item.
         if i_status item \<noteq> MISSING_IN_TARGET \<and> i_status item \<noteq> DIFFERENT then []
         else if i_name item = [] then []
         else [(py_lower (i_name item), (obj_type, item))]) (results_get self obj_type)))
       [''functions'', ''views'', ''procedures'', ''triggers'']))"

definition def_by_name :: "(string \<times> string \<times> item) list \<Rightarrow> string \<Rightarrow> string" where
  "def_by_name nodes key =
     (case map_of nodes key of
        None \<Rightarrow> ''''
      | Some (obj_type, item) \<Rightarrow> py_lower (or_empty (od_definition (details_source (i_details item)))))"

text \<open>
  The graph: \<open>adjacency[a]\<close> collects every other name \<open>b\<close> found in the definition of
  \<open>a\<close>, and each such edge adds one to \<open>indegree[b]\<close>. The set \<open>adjacency[a]\<close> is kept
  as the list of its elements in the order they were added.
\<close>

definition adj_get :: "(string \<times> string list) list \<Rightarrow> string \<Rightarrow> string list" where
  "adj_get adjacency a = (case map_of adjacency a of None \<Rightarrow> [] | Some deps \<Rightarrow> deps)"

definition add_dependency ::
  "string \<Rightarrow> string \<Rightarrow> (string \<times> string list) list \<times> (string \<Rightarrow> int)
   \<Rightarrow> (string \<times> string list) list \<times> (string \<Rightarrow> int)" where
  "add_dependency a b g =
     (case g of (adjacency, indegree) \<Rightarrow>
        if b \<notin> set (adj_get adjacency a)
        then (AList.update a (adj_get adjacency a @ [b]) adjacency, indegree(b := indegree b + 1))
        else (adjacency, indegree))"

definition build_graph ::
  "string list \<Rightarrow> (string \<Rightarrow> string) \<Rightarrow> (string \<times> string list) list \<times> (string \<Rightarrow> int)" where
  "build_graph names defs =
     fold (\<lambda>a g.
        let def_a = defs a
        in if def_a = [] then g
           else fold (\<lambda>b g. if a = b then g
                            else if py_in b def_a then add_dependency a b g
                            else g) names g)
       names (map (\<lambda>n. (n, [])) names, \<lambda>n. 0)"

text \<open>
  The body of the \<open>while queue\<close> loop after \<open>queue.pop(0)\<close>: every dependency of the
  node loses one from its indegree and joins the queue when it reaches zero.
\<close>

definition release :: "string list \<Rightarrow> (string \<Rightarrow> int) \<times> string list \<Rightarrow> (string \<Rightarrow> int) \<times> string list" where
  "release deps st =
     fold (\<lambda>dep (indegree, queue).
        let indegree' = indegree(dep := indegree dep - 1)
        in (indegree', if indegree' dep = 0 then queue @ [dep] else queue)) deps st"

definition pending :: "(string \<times> string list) list \<Rightarrow> (string \<Rightarrow> int) \<Rightarrow> string set" where
  "pending adjacency indegree = {d \<in> set (concat (map snd adjacency)). 0 < indegree d}"

lemma release_measure:
  "set deps \<subseteq> D \<Longrightarrow> finite D \<Longrightarrow> release deps (ind, q) = (ind', q') \<Longrightarrow>
   length q' + card {d \<in> D. 0 < ind' d} \<le> length q + card {d \<in> D. 0 < ind d}"
proof (induction deps arbitrary: ind q)
  case Nil
  then show ?case by (simp add: release_def)
next
  case (Cons dep deps)
  let ?ind1 = "ind(dep := ind dep - 1)"
  let ?q1 = "if ?ind1 dep = 0 then q @ [dep] else q"
  have step: "release (dep # deps) (ind, q) = release deps (?ind1, ?q1)"
    by (simp add: release_def Let_def)
  have dep: "dep \<in> D" using Cons.prems by simp
  have fin: "finite {d \<in> D. 0 < ind d}" using Cons.prems by simp
  have one: "length ?q1 + card {d \<in> D. 0 < ?ind1 d} \<le> length q + card {d \<in> D. 0 < ind d}"
  proof (cases "?ind1 dep = 0")
    case True
    then have pos: "0 < ind dep" by simp
    have eq: "{d \<in> D. 0 < ?ind1 d} = {d \<in> D. 0 < ind d} - {dep}"
      using True by auto
    have "dep \<in> {d \<in> D. 0 < ind d}" using dep pos by simp
    then have "card ({d \<in> D. 0 < ind d} - {dep}) + 1 = card {d \<in> D. 0 < ind d}"
      using fin card_Suc_Diff1 [of "{d \<in> D. 0 < ind d}" dep] by simp
    with True eq show ?thesis by simp
  next
    case False
    have "{d \<in> D. 0 < ?ind1 d} \<subseteq> {d \<in> D. 0 < ind d}" by auto
    then have "card {d \<in> D. 0 < ?ind1 d} \<le> card {d \<in> D. 0 < ind d}"
      using fin by (rule card_mono [rotated])
    with False show ?thesis by simp
  qed
  have r: "release deps (?ind1, ?q1) = (ind', q')"
    using Cons.prems(3) unfolding step .
  have sub: "set deps \<subseteq> D" using Cons.prems(1) by simp
  have "length q' + card {d \<in> D. 0 < ind' d} \<le> length ?q1 + card {d \<in> D. 0 < ?ind1 d}"
    by (rule Cons.IH [OF sub Cons.prems(2) r])
  with one show ?case by linarith
qed

lemma adj_get_subset: "set (adj_get adjacency a) \<subseteq> set (concat (map snd adjacency))"
proof
  fix x assume "x \<in> set (adj_get adjacency a)"
  then obtain deps where "map_of adjacency a = Some deps" "x \<in> set deps"
    by (cases "map_of adjacency a") (auto simp: adj_get_def)
  then have "(a, deps) \<in> set adjacency" "x \<in> set deps"
    by (auto dest: map_of_SomeD)
  then show "x \<in> set (concat (map snd adjacency))"
    by force
qed

text \<open>The \<open>while queue\<close> loop of Kahn's algorithm: the final \<open>ordered_keys\<close>.\<close>

function kahn ::
  "(string \<times> string list) list \<Rightarrow> (string \<Rightarrow> int) \<Rightarrow> string list \<Rightarrow> string list \<Rightarrow> string list" where
  "kahn adjacency indegree [] ordered_keys = ordered_keys"
| "kahn adjacency indegree (node # queue) ordered_keys =
     (case release (adj_get adjacency node) (indegree, queue) of
        (indegree', queue') \<Rightarrow> kahn adjacency indegree' queue' (ordered_keys @ [node]))"
  by pat_completeness auto
termination
proof (relation "measure (\<lambda>(adjacency, indegree, queue, ordered_keys).
         length queue + card (pending adjacency indegree))")
  show "wf (measure (\<lambda>(adjacency, indegree, queue, ordered_keys).
         length queue + card (pending adjacency indegree)))"
    by simp
next
  fix adjacency :: "(string \<times> string list) list" and indegree :: "string \<Rightarrow> int"
    and node :: string and queue ordered_keys :: "string list"
    and indegree' queue'
  assume "(indegree', queue') = release (adj_get adjacency node) (indegree, queue)"
  then have r: "release (adj_get adjacency node) (indegree, queue) = (indegree', queue')"
    by simp
  have "length queue' + card (pending adjacency indegree')
          \<le> length queue + card (pending adjacency indegree)"
    unfolding pending_def
    by (rule release_measure [OF adj_get_subset _ r]) simp
  then show "((adjacency, indegree', queue', ordered_keys @ [node]),
              (adjacency, indegree, node # queue, ordered_keys))
             \<in> measure (\<lambda>(adjacency, indegree, queue, ordered_keys).
                  length queue + card (pending adjacency indegree))"
    by simp
qed

text \<open>
  The keys in scripting order: the loop's output, then (when it stopped short because of a
  cycle) the names it left out, in their first order.
\<close>

definition ordered_keys_of :: "string list \<Rightarrow> (string \<Rightarrow> string) \<Rightarrow> string list" where
  "ordered_keys_of names defs =
     (case build_graph names defs of
        (adjacency, indegree) \<Rightarrow>
          let queue = filter (\<lambda>n. indegree n = 0) names;
              ordered_keys = kahn adjacency indegree queue []
          in if length ordered_keys < length names
             then ordered_keys @ filter (\<lambda>n. n \<notin> set ordered_keys) names
             else ordered_keys)"

definition ordered_programmability_items :: "script_generator \<Rightarrow> (string \<times> item list) list" where
  "ordered_programmability_items self =
     (let nodes = node_by_name self
      in if nodes = [] then []
         else
           concat (map (\<lambda>key. case map_of nodes key of
                                 None \<Rightarrow> []
                               | Some (obj_type, item) \<Rightarrow> [(obj_type, [item])])
                       (ordered_keys_of (map fst nodes) (def_by_name nodes))))"

text \<open>\<open>ScriptGenerator._generate_programmability_phase\<close>.\<close>

definition generate_programmability_phase :: "script_generator \<Rightarrow> string list" where
  "generate_programmability_phase self =
     phase_header ''-- PHASE 4: PROGRAMMABILITY OBJECTS''
     @ concat (map (\<lambda>(obj_type, items).
         if items = [] then []
         else [''-- Creating/modifying '' @ str_nat (length items) @ '' '' @ obj_type]
              @ concat (map (\<lambda>item.
                  create_programmability_statement obj_type (i_name item) (i_details item)) items)
              @ ['''']) (ordered_programmability_items self))"


section \<open>Rollback and the whole script\<close>






text \<open>The default options of \<open>__init__\<close>: every switch on.\<close>

definition default_options :: deploy_options where
  "default_options = \<lparr>wrap_in_transaction = True, include_drop_phase = True,
     include_table_phase = True, include_constraint_phase = True,
     include_programmability_phase = True, include_misc_phase = True,
     include_rollback_section = True\<rparr>"


subsection \<open>Properties of the generator\<close>




















lemmas phase_defs =
  phase_header_def with_status_def fks_to_drop_def generate_drop_phase_def
  generate_table_phase_def constraint_tables_def constraint_section_def
  generate_constraint_phase_def generate_misc_phase_def generate_programmability_phase_def
  results_get_def py_dict_def details_source_def details_target_def details_record_def
  empty_detail_def or_empty_def

lemmas ordering_defs =
  node_by_name_def def_by_name_def adj_get_def add_dependency_def build_graph_def
  release_def ordered_keys_of_def ordered_programmability_items_def py_lower_def lower_char_def






text \<open>
  A changed function \<open>dbo.f\<close> and a changed view \<open>dbo.v\<close> that selects from it.
\<close>

definition changed_object :: "string \<Rightarrow> string \<Rightarrow> item" where
  "changed_object name source_definition =
     \<lparr>i_name = name, i_status = DIFFERENT,
      i_details = SourceTarget (empty_detail\<lparr>od_definition := Some source_definition\<rparr>)
                    (empty_detail\<lparr>od_definition := Some ''-- old''\<rparr>) ''values_changed''\<rparr>"

definition view_on_function :: script_generator where
  "view_on_function =
     \<lparr>results =
        [(''functions'', [changed_object ''dbo.f'' ''CREATE FUNCTION dbo.f() RETURNS INT AS BEGIN RETURN 1 END'']),
         (''views'', [changed_object ''dbo.v'' ''CREATE VIEW dbo.v AS SELECT dbo.f() AS x''])],
      source_metadata = [], target_db = ''Db1'', options = default_options\<rparr>"

text \<open>
  Claim C1, at the view that selects from the function: the definition of \<open>dbo.v\<close>
  mentions \<open>dbo.f\<close>, the definition of \<open>dbo.f\<close> does not mention \<open>dbo.v\<close>, and the
  order returned puts the view first, the function it depends on after it. The edge from
  \<open>dbo.v\<close> to \<open>dbo.f\<close> raises the indegree of \<open>dbo.f\<close>, so the loop starts from the
  dependent.
\<close>

theorem dependent_scripted_first:
  "py_in (py_lower ''dbo.f'') (py_lower ''CREATE VIEW dbo.v AS SELECT dbo.f() AS x'')
   \<and> \<not> py_in (py_lower ''dbo.v'') (py_lower ''CREATE FUNCTION dbo.f() RETURNS INT AS BEGIN RETURN 1 END'')
   \<and> map (\<lambda>(obj_type, items). (obj_type, map i_name items)) (ordered_programmability_items view_on_function)
       = [(''views'', [''dbo.v'']), (''functions'', [''dbo.f''])]"
  by (simp add: view_on_function_def changed_object_def phase_defs ordering_defs Let_def)

text \<open>
  A generator whose result holds one synonym, present only in the source: the details of
  the item are the synonym's record.
\<close>

definition new_synonym :: "string \<Rightarrow> object_detail \<Rightarrow> script_generator" where
  "new_synonym name synonym_record =
     \<lparr>results = [(''synonyms'',
         [\<lparr>i_name = name, i_status = MISSING_IN_TARGET,
           i_details = Single synonym_record\<rparr>])],
      source_metadata = [], target_db = ''Db1'', options = default_options\<rparr>"

text \<open>The record the script-folder loader builds for a synonym: its text.\<close>

definition synonym_from_script :: object_detail where
  "synonym_from_script = empty_detail\<lparr>od_definition := Some ''CREATE SYNONYM dbo.s FOR dbo.t''\<rparr>"

text \<open>
  Claim C8, at a synonym missing in the target whose record names its base object: the
  misc phase reads \<open>details.get("source", {})\<close>, which a single-sided record does not
  have, finds no base object and emits the count line only, no \<open>CREATE SYNONYM\<close>.
\<close>

theorem new_synonym_not_created:
  "generate_misc_phase (new_synonym name (empty_detail\<lparr>od_base_object_name := Some base_object\<rparr>))
     = phase_header ''-- PHASE 5: MISCELLANEOUS OBJECTS'' @ [''-- Creating 1 synonyms'', '''']"
  by (simp add: new_synonym_def synonym_from_script_def phase_defs digit_char_def)

text \<open>With the record under a \<open>source\<close> key the statement is emitted.\<close>

lemma synonym_created_from_source_key:
  "base_object \<noteq> [] \<Longrightarrow>
   generate_misc_phase
     \<lparr>results = [(''synonyms'',
         [\<lparr>i_name = name, i_status = MISSING_IN_TARGET,
           i_details = SourceTarget (empty_detail\<lparr>od_base_object_name := Some base_object\<rparr>) t df\<rparr>])],
      source_metadata = sm, target_db = db, options = opts\<rparr>
     = phase_header ''-- PHASE 5: MISCELLANEOUS OBJECTS''
       @ [''-- Creating 1 synonyms'', ''CREATE SYNONYM '' @ name @ '' FOR '' @ base_object @ '';'', ''GO'', '''']"
  by (simp add: phase_defs digit_char_def)

















end
